theory Spec2Isabelle
  imports Main "HOL-Library.Sublist"
begin

section \<open>Python values\<close>

text \<open>
  The values that travel through both adapters are the ones Python's JSON decoder
  produces: \<open>None\<close>, booleans, integers, floats, strings, lists and dictionaries with
  string keys. A dictionary is an association list in insertion order (the order Python
  keeps); a lookup takes the first entry of a key. A float is carried as a mantissa and a
  binary exponent (its value is \<open>m * 2 ^ e\<close>); no operation of the program computes
  with it, only its truth value is ever read.
\<close>

datatype json =
    JNull
  | JBool bool
  | JInt int
  | JFloat int int
  | JStr string
  | JList "json list"
  | JObj "(string \<times> json) list"

text \<open>Python's truth value of an object, as \<open>not x\<close> and \<open>x or y\<close> read it.\<close>

fun truthy :: "json \<Rightarrow> bool" where
  "truthy JNull = False"
| "truthy (JBool b) = b"
| "truthy (JInt i) = (i \<noteq> 0)"
| "truthy (JFloat m e) = (m \<noteq> 0)"
| "truthy (JStr s) = (s \<noteq> [])"
| "truthy (JList xs) = (xs \<noteq> [])"
| "truthy (JObj kvs) = (kvs \<noteq> [])"

definition py_or :: "json \<Rightarrow> json \<Rightarrow> json" where
  "py_or a b = (if truthy a then a else b)"

text \<open>An \<open>Optional[str]\<close> attribute as a Python value: \<open>None\<close> or the string.\<close>

fun of_optional :: "string option \<Rightarrow> json" where
  "of_optional None = JNull"
| "of_optional (Some s) = JStr s"

fun type_name :: "json \<Rightarrow> string" where
  "type_name JNull = ''NoneType''"
| "type_name (JBool b) = ''bool''"
| "type_name (JInt i) = ''int''"
| "type_name (JFloat m e) = ''float''"
| "type_name (JStr s) = ''str''"
| "type_name (JList xs) = ''list''"
| "type_name (JObj kvs) = ''dict''"

definition quoted :: "string \<Rightarrow> string" where
  "quoted s = CHR 0x27 # s @ [CHR 0x27]"

section \<open>Exceptions\<close>

text \<open>
  A value of type \<open>exc\<close> is an instance of Python's \<open>Exception\<close>: the class, the
  text \<open>str(e)\<close>, and the \<open>response\<close> attribute. The first five classes are
  \<open>requests.exceptions.RequestException\<close> and its subclasses. The constructor of
  \<open>RequestException\<close> always sets \<open>self.response\<close>, to \<open>None\<close> unless a response
  is handed to it, so an exception raised by the requests library has \<open>AttrNone\<close> or
  \<open>AttrResp\<close>; \<open>NoAttr\<close> is an object on which \<open>hasattr(e, "response")\<close> is
  false. Logging is not modelled: it changes no value the program returns.
\<close>

datatype exc_class =
    ConnectionError
  | Timeout
  | HTTPError
  | RequestsJSONDecodeError
  | OtherRequestException string
  | ValueError
  | AttributeError
  | TypeError
  | KeyError
  | ToolExecutionError
  | OtherException string

fun is_RequestException :: "exc_class \<Rightarrow> bool" where
  "is_RequestException ConnectionError = True"
| "is_RequestException Timeout = True"
| "is_RequestException HTTPError = True"
| "is_RequestException RequestsJSONDecodeError = True"
| "is_RequestException (OtherRequestException n) = True"
| "is_RequestException ValueError = False"
| "is_RequestException AttributeError = False"
| "is_RequestException TypeError = False"
| "is_RequestException KeyError = False"
| "is_RequestException ToolExecutionError = False"
| "is_RequestException (OtherException n) = False"

text \<open>
  An HTTP response of the requests library: its status, the text that
  \<open>raise_for_status\<close> puts into the \<open>HTTPError\<close> it raises, and what
  \<open>response.json()\<close> does: raise (class and text) or return the decoded body.
\<close>

record http_response =
  status_code :: int
  http_error_msg :: string
  json_result :: "(exc_class \<times> string) + json"

datatype resp_attr = NoAttr | AttrNone | AttrResp http_response

datatype exc = Exc (cls: exc_class) (str: string) (response: resp_attr)

text \<open>
  \<open>Response.raise_for_status()\<close> raises \<open>HTTPError(msg, response=self)\<close> for the
  client and server error statuses 400 to 599 and returns otherwise.
\<close>

definition raise_for_status :: "http_response \<Rightarrow> exc option" where
  "raise_for_status r =
     (if 400 \<le> status_code r \<and> status_code r < 600
      then Some (Exc HTTPError (http_error_msg r) (AttrResp r))
      else None)"

text \<open>
  \<open>Response.json()\<close>. An exception built by the requests library without a response
  has the attribute set to \<open>None\<close>; any other class has no such attribute.
\<close>

definition json_call :: "http_response \<Rightarrow> exc + json" where
  "json_call r =
     (case json_result r of
        Inl (k, m) \<Rightarrow> Inl (Exc k m (if is_RequestException k then AttrNone else NoAttr))
      | Inr v \<Rightarrow> Inr v)"

section \<open>Operations on Python values used by the client\<close>

text \<open>\<open>data.get(key, default)\<close>: only a dictionary has the method.\<close>

definition field_or :: "(string \<times> json) list \<Rightarrow> string \<Rightarrow> json \<Rightarrow> json" where
  "field_or kvs k d = (case map_of kvs k of Some v \<Rightarrow> v | None \<Rightarrow> d)"

fun py_get :: "json \<Rightarrow> string \<Rightarrow> json \<Rightarrow> exc + json" where
  "py_get (JObj kvs) k d = Inr (field_or kvs k d)"
| "py_get v k d =
     Inl (Exc AttributeError (quoted (type_name v) @ '' object has no attribute '' @ quoted ''get'') NoAttr)"

text \<open>
  \<open>key in x\<close> for a string key: a key test on a dictionary, an element test on a
  list (a string equals only a string), a substring test on a string, and a
  \<open>TypeError\<close> on everything else.
\<close>

fun py_contains :: "string \<Rightarrow> json \<Rightarrow> exc + bool" where
  "py_contains k (JObj kvs) = Inr (k \<in> set (map fst kvs))"
| "py_contains k (JList xs) = Inr (JStr k \<in> set xs)"
| "py_contains k (JStr s) = Inr (sublist k s)"
| "py_contains k v =
     Inl (Exc TypeError (''argument of type '' @ quoted (type_name v) @ '' is not iterable'') NoAttr)"

text \<open>\<open>x[key]\<close> for a string key.\<close>

fun py_getitem :: "json \<Rightarrow> string \<Rightarrow> exc + json" where
  "py_getitem (JObj kvs) k =
     (case map_of kvs k of Some v \<Rightarrow> Inr v | None \<Rightarrow> Inl (Exc KeyError (quoted k) NoAttr))"
| "py_getitem (JList xs) k =
     Inl (Exc TypeError ''list indices must be integers or slices, not str'' NoAttr)"
| "py_getitem (JStr s) k =
     Inl (Exc TypeError (''string indices must be integers, not '' @ quoted ''str'') NoAttr)"
| "py_getitem v k =
     Inl (Exc TypeError (quoted (type_name v) @ '' object is not subscriptable'') NoAttr)"

section \<open>The direct client\<close>

record MCPRequest =
  query :: string
  request_context :: "(string \<times> json) list"
  user_id :: "string option"
  conversation_id :: "string option"
  request_metadata :: "(string \<times> json) list"

text \<open>
  The fields of \<open>MCPResponse\<close> are annotated \<open>str\<close> and \<open>Optional[str]\<close>, but
  the class is a plain dataclass and \<open>process\<close> stores whatever the decoded body holds,
  so \<open>content\<close> and \<open>error\<close> are Python values; \<open>JNull\<close> is \<open>None\<close>.
\<close>

record MCPResponse =
  content :: json
  metadata :: "(string \<times> json) list"
  error :: json

record SuadaMCP =
  api_key :: string
  base_url :: string
  external_user_identifier :: "string option"

text \<open>One call of \<open>requests.post(url, headers=..., json=...)\<close>.\<close>

record post_call =
  url :: string
  headers :: "(string \<times> string) list"
  json_arg :: "(string \<times> json) list"

text \<open>The network: what \<open>requests.post\<close> does with a call, raise or return a response.\<close>

type_synonym transport = "post_call \<Rightarrow> exc + http_response"

definition get_headers :: "SuadaMCP \<Rightarrow> (string \<times> string) list" where
  "get_headers self =
     [(''Authorization'', ''Bearer '' @ api_key self),
      (''Content-Type'', ''application/json''),
      (''Accept'', ''application/json''),
      (''User-Agent'', ''SuadaMCP/1.0 Python'')]"

text \<open>The payload of lines 101 to 109, for the resolved user identifier.\<close>

definition build_payload :: "MCPRequest \<Rightarrow> json \<Rightarrow> (string \<times> json) list" where
  "build_payload request uid =
     (let payload = [(''message'', JStr (query request)),
                     (''externalUserIdentifier'', uid),
                     (''context'', JObj (request_context request))]
      in if truthy (of_optional (conversation_id request))
         then payload @ [(''conversationId'', of_optional (conversation_id request))]
         else payload)"

definition build_call :: "SuadaMCP \<Rightarrow> MCPRequest \<Rightarrow> json \<Rightarrow> post_call" where
  "build_call self request uid =
     \<lparr>url = base_url self @ ''/chat'', headers = get_headers self,
      json_arg = build_payload request uid\<rparr>"

text \<open>Lines 123 to 141: the decoded body becomes the response.\<close>

definition format_response :: "json \<Rightarrow> exc + MCPResponse" where
  "format_response data =
     (case py_get data ''metrics'' (JObj []) of Inl e \<Rightarrow> Inl e | Inr metrics \<Rightarrow>
     (case py_get data ''insights'' (JList []) of Inl e \<Rightarrow> Inl e | Inr insights \<Rightarrow>
     (case py_get data ''recommendations'' (JList []) of Inl e \<Rightarrow> Inl e | Inr recommendations \<Rightarrow>
     (case py_get data ''risks'' (JList []) of Inl e \<Rightarrow> Inl e | Inr risks \<Rightarrow>
     (case py_get data ''reasoning'' (JStr []) of Inl e \<Rightarrow> Inl e | Inr reasoning \<Rightarrow>
     (case py_get data ''response'' (JStr []) of Inl e \<Rightarrow> Inl e | Inr answer \<Rightarrow>
        Inr \<lparr>content = answer,
             metadata = [(''suada_data'', JObj [(''metrics'', metrics),
                                                (''insights'', insights),
                                                (''recommendations'', recommendations),
                                                (''risks'', risks),
                                                (''reasoning'', reasoning)]),
                         (''raw_response'', data)],
             error = JNull\<rparr>))))))"

text \<open>
  The body of the \<open>try\<close> block, lines 95 to 141, with the calls of
  \<open>requests.post\<close> it has made.
\<close>

definition try_body :: "SuadaMCP \<Rightarrow> transport \<Rightarrow> MCPRequest \<Rightarrow> (exc + MCPResponse) \<times> post_call list" where
  "try_body self post request =
     (let uid = py_or (of_optional (user_id request)) (of_optional (external_user_identifier self))
      in if \<not> truthy uid
         then (Inl (Exc ValueError
                 ''User identifier is required. Provide it in the request or during initialization.''
                 NoAttr), [])
         else
           (let call = build_call self request uid
            in (case post call of
                  Inl e \<Rightarrow> Inl e
                | Inr resp \<Rightarrow>
                    (case raise_for_status resp of
                       Some e \<Rightarrow> Inl e
                     | None \<Rightarrow>
                         (case json_call resp of
                            Inl e \<Rightarrow> Inl e
                          | Inr data \<Rightarrow> format_response data)),
                [call])))"

text \<open>
  Lines 147 to 154: the error text. The inner \<open>try\<close> has a bare \<open>except\<close>, so
  every exception of \<open>json()\<close>, of \<open>in\<close> and of the subscript leaves the generic text.
\<close>

definition extract_error_message :: "exc \<Rightarrow> json" where
  "extract_error_message e =
     (case response e of
        AttrResp r \<Rightarrow>
          (case json_call r of
             Inl x \<Rightarrow> JStr ''Failed to communicate with Suada API''
           | Inr error_data \<Rightarrow>
               (case py_contains ''message'' error_data of
                  Inl x \<Rightarrow> JStr ''Failed to communicate with Suada API''
                | Inr False \<Rightarrow> JStr ''Failed to communicate with Suada API''
                | Inr True \<Rightarrow>
                    (case py_getitem error_data ''message'' of
                       Inl x \<Rightarrow> JStr ''Failed to communicate with Suada API''
                     | Inr m \<Rightarrow> m)))
      | AttrNone \<Rightarrow> JStr ''Failed to communicate with Suada API''
      | NoAttr \<Rightarrow> JStr ''Failed to communicate with Suada API'')"

text \<open>
  Line 159: \<open>e.response.status_code if hasattr(e, "response") else None\<close>. When the
  attribute is there and holds \<open>None\<close>, reading \<open>status_code\<close> raises.
\<close>

definition status_code_of :: "exc \<Rightarrow> exc + json" where
  "status_code_of e =
     (case response e of
        NoAttr \<Rightarrow> Inr JNull
      | AttrNone \<Rightarrow>
          Inl (Exc AttributeError
                 (quoted ''NoneType'' @ '' object has no attribute '' @ quoted ''status_code'') NoAttr)
      | AttrResp r \<Rightarrow> Inr (JInt (status_code r)))"

text \<open>
  The handler of \<open>RequestException\<close>, lines 143 to 160. An exception raised inside a
  handler is not caught by the other handlers of the same \<open>try\<close> statement: it leaves
  \<open>process\<close>.
\<close>

definition handle_request_exception :: "exc \<Rightarrow> exc + MCPResponse" where
  "handle_request_exception e =
     (let error_message = extract_error_message e
      in case status_code_of e of
           Inl x \<Rightarrow> Inl x
         | Inr sc \<Rightarrow>
             Inr \<lparr>content = JStr [], metadata = [(''status_code'', sc)], error = error_message\<rparr>)"

text \<open>The handler of \<open>Exception\<close>, lines 161 to 167.\<close>

definition handle_exception :: "exc \<Rightarrow> MCPResponse" where
  "handle_exception e =
     \<lparr>content = JStr [], metadata = [], error = JStr (''Unexpected error: '' @ str e)\<rparr>"

text \<open>
  \<open>SuadaMCP.process\<close>: \<open>Inl\<close> is an exception that reaches the caller, \<open>Inr\<close> the
  returned response; the second component lists the network calls made.
\<close>

definition process :: "SuadaMCP \<Rightarrow> transport \<Rightarrow> MCPRequest \<Rightarrow> (exc + MCPResponse) \<times> post_call list" where
  "process self post request =
     (case try_body self post request of
        (Inr r, calls) \<Rightarrow> (Inr r, calls)
      | (Inl e, calls) \<Rightarrow>
          if is_RequestException (cls e) then (handle_request_exception e, calls)
          else (Inr (handle_exception e), calls))"

section \<open>The tool server\<close>

text \<open>
  The SDK is not part of the repository; the handlers read it through three operations.
  \<open>ChatPayload(message=m)\<close> builds the payload \<open>ChatPayload m\<close> unless the
  constructor raises (\<open>payload_fault\<close>); \<open>suada.chat(payload)\<close> raises or returns an
  object; and the handlers read attributes of that object, which is duck-typed: an object
  is its class name and the attributes it has, each holding any Python value.
\<close>

datatype ChatPayload = ChatPayload (message: string)

record py_object =
  class_name :: string
  attrs :: "(string \<times> json) list"

text \<open>
  What the SDK can raise inside a handler: an instance of \<open>Exception\<close>, or an
  exception that derives from \<open>BaseException\<close> only (its class and its text), such as
  the \<open>KeyboardInterrupt\<close> of an interrupted blocking call. The handlers' clause
  \<open>except Exception\<close> catches the first kind and not the second.
\<close>

datatype base_class = KeyboardInterrupt | SystemExit | CancelledError | GeneratorExit

datatype raised = Exception exc | BaseOnly base_class string

record suada =
  payload_fault :: "string \<Rightarrow> raised option"
  chat :: "ChatPayload \<Rightarrow> raised + py_object"

definition getattr :: "py_object \<Rightarrow> string \<Rightarrow> exc + json" where
  "getattr obj name =
     (case map_of (attrs obj) name of
        Some v \<Rightarrow> Inr v
      | None \<Rightarrow>
          Inl (Exc AttributeError
                 (quoted (class_name obj) @ '' object has no attribute '' @ quoted name) NoAttr))"

text \<open>Lines 145 to 165: the body of the \<open>try\<close> block of \<open>business_analyst\<close>.\<close>

definition business_analyst_body :: "suada \<Rightarrow> string \<Rightarrow> (raised + (string \<times> json) list) \<times> ChatPayload list" where
  "business_analyst_body sdk qry =
     (case payload_fault sdk qry of
        Some x \<Rightarrow> (Inl x, [])
      | None \<Rightarrow>
          (let payload = ChatPayload qry
           in (case chat sdk payload of
                 Inl x \<Rightarrow> Inl x
               | Inr resp \<Rightarrow>
                   (case getattr resp ''response'' of Inl e \<Rightarrow> Inl (Exception e) | Inr r \<Rightarrow>
                   (case getattr resp ''metrics'' of Inl e \<Rightarrow> Inl (Exception e) | Inr metrics \<Rightarrow>
                   (case getattr resp ''insights'' of Inl e \<Rightarrow> Inl (Exception e) | Inr insights \<Rightarrow>
                   (case getattr resp ''recommendations'' of Inl e \<Rightarrow> Inl (Exception e) | Inr recommendations \<Rightarrow>
                   (case getattr resp ''risks'' of Inl e \<Rightarrow> Inl (Exception e) | Inr risks \<Rightarrow>
                      Inr [(''response'', r),
                           (''metrics'', py_or metrics (JObj [])),
                           (''insights'', py_or insights (JList [])),
                           (''recommendations'', py_or recommendations (JList [])),
                           (''risks'', py_or risks (JList []))]))))),
               [payload])))"

text \<open>
  \<open>business_analyst\<close>, with the clause of lines 167 to 169: \<open>Inl\<close> is the exception
  the server runtime sees, the second component the payloads handed to \<open>suada.chat\<close>.
  \<open>except Exception\<close> replaces an instance of \<open>Exception\<close> by a
  \<open>ToolExecutionError\<close>; an exception outside \<open>Exception\<close> is not caught and leaves
  the handler as it is.
\<close>

definition business_analyst :: "suada \<Rightarrow> string \<Rightarrow> (raised + (string \<times> json) list) \<times> ChatPayload list" where
  "business_analyst sdk qry =
     (case business_analyst_body sdk qry of
        (Inr result, calls) \<Rightarrow> (Inr result, calls)
      | (Inl (Exception e), calls) \<Rightarrow>
          (Inl (Exception (Exc ToolExecutionError
                  (''Failed to get business insights: '' @ str e) NoAttr)), calls)
      | (Inl (BaseOnly k m), calls) \<Rightarrow> (Inl (BaseOnly k m), calls))"

text \<open>Line 208: the f-string of \<open>data_retrieval\<close>.\<close>

definition retrieval_message :: "string \<Rightarrow> string \<Rightarrow> string" where
  "retrieval_message data_source qry = ''Retrieve data from '' @ data_source @ '': '' @ qry"

text \<open>Lines 204 to 224: the body of the \<open>try\<close> block of \<open>data_retrieval\<close>.\<close>

definition data_retrieval_body :: "suada \<Rightarrow> string \<Rightarrow> string \<Rightarrow> (raised + (string \<times> json) list) \<times> ChatPayload list" where
  "data_retrieval_body sdk data_source qry =
     (case payload_fault sdk (retrieval_message data_source qry) of
        Some x \<Rightarrow> (Inl x, [])
      | None \<Rightarrow>
          (let payload = ChatPayload (retrieval_message data_source qry)
           in (case chat sdk payload of
                 Inl x \<Rightarrow> Inl x
               | Inr resp \<Rightarrow>
                   (case getattr resp ''response'' of
                      Inl e \<Rightarrow> Inl (Exception e)
                    | Inr r \<Rightarrow>
                        Inr [(''data'', r),
                             (''metadata'', JObj [(''source'', JStr data_source),
                                                  (''query'', JStr qry)])]),
               [payload])))"

text \<open>\<open>data_retrieval\<close>, with the clause of lines 226 to 228.\<close>

definition data_retrieval :: "suada \<Rightarrow> string \<Rightarrow> string \<Rightarrow> (raised + (string \<times> json) list) \<times> ChatPayload list" where
  "data_retrieval sdk data_source qry =
     (case data_retrieval_body sdk data_source qry of
        (Inr result, calls) \<Rightarrow> (Inr result, calls)
      | (Inl (Exception e), calls) \<Rightarrow>
          (Inl (Exception (Exc ToolExecutionError
                  (''Failed to retrieve data: '' @ str e) NoAttr)), calls)
      | (Inl (BaseOnly k m), calls) \<Rightarrow> (Inl (BaseOnly k m), calls))"

section \<open>Example inputs\<close>

definition example_client :: SuadaMCP where
  "example_client =
     \<lparr>api_key = ''sk-test'', base_url = ''https://suada.ai/api/public'',
      external_user_identifier = None\<rparr>"

definition example_request :: MCPRequest where
  "example_request =
     \<lparr>query = ''What's our revenue trend?'',
      request_context = [(''timeframe'', JStr ''last_quarter'')],
      user_id = Some ''u1'', conversation_id = None, request_metadata = []\<rparr>"

definition example_call :: post_call where
  "example_call =
     \<lparr>url = ''https://suada.ai/api/public/chat'',
      headers = [(''Authorization'', ''Bearer sk-test''),
                 (''Content-Type'', ''application/json''),
                 (''Accept'', ''application/json''),
                 (''User-Agent'', ''SuadaMCP/1.0 Python'')],
      json_arg = [(''message'', JStr ''What's our revenue trend?''),
                  (''externalUserIdentifier'', JStr ''u1''),
                  (''context'', JObj [(''timeframe'', JStr ''last_quarter'')])]\<rparr>"

text \<open>Three networks: no connection, no answer in time, and a server that answers.\<close>

definition unreachable :: transport where
  "unreachable call = Inl (Exc ConnectionError ''Connection refused'' AttrNone)"

definition timed_out :: transport where
  "timed_out call = Inl (Exc Timeout ''Read timed out'' AttrNone)"

definition replies :: "http_response \<Rightarrow> transport" where
  "replies r call = Inr r"

definition none_has_no_status_code :: exc where
  "none_has_no_status_code =
     Exc AttributeError
       (quoted ''NoneType'' @ '' object has no attribute '' @ quoted ''status_code'') NoAttr"

definition missing_user_response :: MCPResponse where
  "missing_user_response =
     \<lparr>content = JStr [], metadata = [],
      error = JStr ''Unexpected error: User identifier is required. Provide it in the request or during initialization.''\<rparr>"

definition not_found :: http_response where
  "not_found =
     \<lparr>status_code = 404, http_error_msg = ''404 Client Error: Not Found for url: https://suada.ai/api/public/chat'',
      json_result = Inr (JObj [(''message'', JStr ''Unknown user'')])\<rparr>"

definition null_metrics :: http_response where
  "null_metrics =
     \<lparr>status_code = 200, http_error_msg = [],
      json_result = Inr (JObj [(''response'', JStr ''Revenue grew.''), (''metrics'', JNull)])\<rparr>"

text \<open>Three SDKs: one that answers with a given object, one whose chat call raises, and
  one whose payload constructor raises.\<close>

definition answering_sdk :: "py_object \<Rightarrow> suada" where
  "answering_sdk obj = \<lparr>payload_fault = (\<lambda>m. None), chat = (\<lambda>p. Inr obj)\<rparr>"

definition failing_sdk :: "raised \<Rightarrow> suada" where
  "failing_sdk x = \<lparr>payload_fault = (\<lambda>m. None), chat = (\<lambda>p. Inl x)\<rparr>"

definition rejecting_sdk :: "raised \<Rightarrow> suada" where
  "rejecting_sdk x = \<lparr>payload_fault = (\<lambda>m. Some x), chat = (\<lambda>p. Inl x)\<rparr>"

definition bare_answer :: py_object where
  "bare_answer = \<lparr>class_name = ''ChatResponse'', attrs = []\<rparr>"

definition null_answer :: py_object where
  "null_answer =
     \<lparr>class_name = ''ChatResponse'',
      attrs = [(''response'', JNull), (''metrics'', JNull), (''insights'', JNull),
               (''recommendations'', JNull), (''risks'', JNull)]\<rparr>"

definition plain_answer :: py_object where
  "plain_answer =
     \<lparr>class_name = ''ChatResponse'',
      attrs = [(''response'', JStr ''42 units''), (''metrics'', JObj [(''units'', JInt 42)]),
               (''insights'', JNull), (''recommendations'', JList [JStr ''Restock'']),
               (''risks'', JList [])]\<rparr>"

section \<open>The direct client: what reaches the caller\<close>

lemma process_calls: "snd (process self post request) = snd (try_body self post request)"
  by (cases "try_body self post request") (auto simp: process_def split: sum.splits)

lemma try_body_calls:
  "snd (try_body self post request) =
     (let uid = py_or (of_optional (user_id request)) (of_optional (external_user_identifier self))
      in if truthy uid then [build_call self request uid] else [])"
  by (simp add: try_body_def Let_def)

text \<open>
  The text chosen by the handler of the requests library's exceptions: the \<open>message\<close>
  field of a body that decodes to a mapping holding one, the generic text for every other
  body, and for an exception without a response.
\<close>

lemma extract_error_message_found:
  assumes "response e = AttrResp r" and "json_result r = Inr (JObj kvs)"
    and "map_of kvs ''message'' = Some m"
  shows "extract_error_message e = m"
proof -
  from assms(3) have "''message'' \<in> fst ` set kvs"
    by (metis map_of_eq_None_iff option.distinct(1))
  with assms show ?thesis
    by (simp add: extract_error_message_def json_call_def)
qed

lemma extract_error_message_generic:
  assumes "response e = AttrResp r"
    and "\<And>kvs. json_result r = Inr (JObj kvs) \<Longrightarrow> map_of kvs ''message'' = None"
  shows "extract_error_message e = JStr ''Failed to communicate with Suada API''"
proof (cases "json_result r")
  case (Inl a)
  with assms(1) show ?thesis
    by (cases a) (simp add: extract_error_message_def json_call_def)
next
  case (Inr v)
  show ?thesis
  proof (cases v)
    case (JObj kvs)
    with Inr assms(2) have "map_of kvs ''message'' = None"
      by simp
    then have "''message'' \<notin> fst ` set kvs"
      by (simp add: map_of_eq_None_iff)
    with assms(1) Inr JObj show ?thesis
      by (simp add: extract_error_message_def json_call_def)
  qed (use assms(1) Inr in
      \<open>simp_all add: extract_error_message_def json_call_def split: bool.splits\<close>)
qed

text \<open>
  The only exception that ever leaves \<open>process\<close> is the \<open>AttributeError\<close> of line 159,
  and it does so exactly for an exception of the requests library whose response is
  \<open>None\<close>.
\<close>

lemma process_raises_only_without_response:
  assumes "fst (process self post request) = Inl x"
  shows "x = none_has_no_status_code
         \<and> (\<exists>e calls. try_body self post request = (Inl e, calls)
               \<and> is_RequestException (cls e) \<and> response e = AttrNone)"
proof (cases "try_body self post request")
  case (Pair out calls)
  show ?thesis
  proof (cases out)
    case (Inr r)
    with Pair assms show ?thesis
      by (simp add: process_def)
  next
    case (Inl e)
    with Pair assms show ?thesis
      by (cases "response e")
        (auto simp: process_def handle_request_exception_def status_code_of_def
          none_has_no_status_code_def split: if_splits)
  qed
qed

lemma example_call_built:
  "build_call example_client example_request (JStr ''u1'') = example_call"
  by (simp add: build_call_def build_payload_def get_headers_def example_client_def
      example_request_def example_call_def)

text \<open>
  C1, where the code departs from it. The claim: \<open>process\<close> always returns a response
  and no exception reaches the caller. With a user identifier present and the network
  refusing the connection, \<open>requests.post\<close> raises a \<open>ConnectionError\<close> whose
  \<open>response\<close> attribute is \<open>None\<close>; line 159 then reads \<open>e.response.status_code\<close>
  inside the handler, and the \<open>AttributeError\<close> leaves \<open>process\<close>. The same happens
  when a 200 answer has a body that is not JSON and \<open>json()\<close> raises the requests
  library's own decode error.
\<close>

theorem process_connection_error_raises:
  "process example_client unreachable example_request
     = (Inl none_has_no_status_code, [example_call])
   \<and> process example_client
         (replies \<lparr>status_code = 200, http_error_msg = [],
                   json_result = Inl (RequestsJSONDecodeError, ''Expecting value: line 1 column 1 (char 0)'')\<rparr>)
         example_request
     = (Inl none_has_no_status_code, [example_call])"
  by (simp add: process_def try_body_def py_or_def handle_request_exception_def
      status_code_of_def extract_error_message_def unreachable_def replies_def
      raise_for_status_def json_call_def none_has_no_status_code_def
      example_call_built [symmetric] example_client_def example_request_def)

text \<open>
  C2. A request without a user identifier, on a client without a default one, gets the
  response of the catch-all handler: the error text is set, the content is empty, and
  \<open>requests.post\<close> has not been called.
\<close>

theorem process_missing_user_id:
  assumes "user_id request = None" and "external_user_identifier self = None"
  shows "process self post request = (Inr missing_user_response, [])
         \<and> error missing_user_response \<noteq> JNull
         \<and> content missing_user_response = JStr []"
  using assms
  by (simp add: process_def try_body_def py_or_def handle_exception_def
      missing_user_response_def)

theorem process_missing_user_id_witness:
  "user_id (example_request\<lparr>user_id := None\<rparr>) = None
   \<and> external_user_identifier example_client = None
   \<and> process example_client unreachable (example_request\<lparr>user_id := None\<rparr>)
       = (Inr missing_user_response, [])"
  using process_missing_user_id [of "example_request\<lparr>user_id := None\<rparr>" example_client unreachable]
  by (simp add: example_request_def example_client_def)

text \<open>
  C4, where the code departs from it. The claim: a transport failure without a parseable
  \<open>message\<close> field yields the generic text as the error of the response. For every
  request with a user identifier, when \<open>requests.post\<close> raises an exception of the
  requests library that carries no response, the generic text has been chosen (line 147)
  but no response is returned: building the metadata raises.
\<close>

theorem process_no_response_raises:
  assumes "uid = py_or (of_optional (user_id request)) (of_optional (external_user_identifier self))"
    and "truthy uid"
    and "post (build_call self request uid) = Inl e"
    and "is_RequestException (cls e)"
    and "response e = AttrNone"
  shows "extract_error_message e = JStr ''Failed to communicate with Suada API''
         \<and> process self post request = (Inl none_has_no_status_code, [build_call self request uid])"
  using assms
  by (simp add: process_def try_body_def handle_request_exception_def
      status_code_of_def extract_error_message_def none_has_no_status_code_def)

theorem process_no_response_raises_witness:
  "truthy (JStr ''u1'')
   \<and> timed_out example_call = Inl (Exc Timeout ''Read timed out'' AttrNone)
   \<and> process example_client timed_out example_request
       = (Inl none_has_no_status_code, [example_call])"
proof -
  have uid: "py_or (of_optional (user_id example_request))
                   (of_optional (external_user_identifier example_client)) = JStr ''u1''"
    by (simp add: py_or_def example_request_def example_client_def)
  have raised: "timed_out (build_call example_client example_request (JStr ''u1''))
                  = Inl (Exc Timeout ''Read timed out'' AttrNone)"
    by (simp add: timed_out_def)
  have "process example_client timed_out example_request
          = (Inl none_has_no_status_code, [build_call example_client example_request (JStr ''u1'')])"
    using process_no_response_raises [of "JStr ''u1''" example_request example_client timed_out
        "Exc Timeout ''Read timed out'' AttrNone"] uid raised
    by simp
  then show ?thesis
    by (simp add: example_call_built timed_out_def)
qed

text \<open>
  C6. The payload handed to \<open>requests.post\<close> for the request of the specification, on
  any client and any network: the three keys, and a fourth \<open>conversationId\<close> exactly when
  the request carries the conversation identifier \<open>c1\<close>.
\<close>

theorem process_payload_example:
  "map json_arg (snd (process self post
      \<lparr>query = ''What's our revenue trend?'',
       request_context = [(''timeframe'', JStr ''last_quarter'')],
       user_id = Some ''u1'', conversation_id = None, request_metadata = md\<rparr>))
     = [[(''message'', JStr ''What's our revenue trend?''),
         (''externalUserIdentifier'', JStr ''u1''),
         (''context'', JObj [(''timeframe'', JStr ''last_quarter'')])]]
   \<and> map json_arg (snd (process self post
      \<lparr>query = ''What's our revenue trend?'',
       request_context = [(''timeframe'', JStr ''last_quarter'')],
       user_id = Some ''u1'', conversation_id = Some ''c1'', request_metadata = md\<rparr>))
     = [[(''message'', JStr ''What's our revenue trend?''),
         (''externalUserIdentifier'', JStr ''u1''),
         (''context'', JObj [(''timeframe'', JStr ''last_quarter'')]),
         (''conversationId'', JStr ''c1'')]]"
  by (simp add: process_calls try_body_calls py_or_def build_call_def build_payload_def)

text \<open>
  C10. The identifiers are tested for their truth value. A request whose conversation
  identifier is the empty string sends a payload of exactly the three keys, without
  \<open>conversationId\<close>; a request whose user identifier is the empty string, on a client
  whose default is absent or empty too, gets the response of the missing identifier and no
  call is made.
\<close>

theorem process_truthiness:
  "(conversation_id request = Some [] \<longrightarrow>
      (\<forall>call \<in> set (snd (process self post request)).
         map fst (json_arg call) = [''message'', ''externalUserIdentifier'', ''context'']
         \<and> map_of (json_arg call) ''conversationId'' = None))
   \<and> (user_id request = Some [] \<and>
        (external_user_identifier self = None \<or> external_user_identifier self = Some []) \<longrightarrow>
      process self post request = (Inr missing_user_response, []))"
proof (intro conjI impI)
  assume "conversation_id request = Some []"
  then show "\<forall>call \<in> set (snd (process self post request)).
         map fst (json_arg call) = [''message'', ''externalUserIdentifier'', ''context'']
         \<and> map_of (json_arg call) ''conversationId'' = None"
    by (simp add: process_calls try_body_calls Let_def build_call_def build_payload_def)
next
  assume "user_id request = Some [] \<and>
        (external_user_identifier self = None \<or> external_user_identifier self = Some [])"
  then show "process self post request = (Inr missing_user_response, [])"
    by (auto simp: process_def try_body_def py_or_def handle_exception_def
        missing_user_response_def)
qed

theorem process_truthiness_witness:
  "conversation_id (example_request\<lparr>conversation_id := Some []\<rparr>) = Some []
   \<and> snd (process example_client unreachable (example_request\<lparr>conversation_id := Some []\<rparr>))
       = [example_call]
   \<and> map_of (json_arg example_call) ''conversationId'' = None
   \<and> user_id (example_request\<lparr>user_id := Some []\<rparr>) = Some []
   \<and> process (example_client\<lparr>external_user_identifier := Some []\<rparr>) unreachable
         (example_request\<lparr>user_id := Some []\<rparr>)
       = (Inr missing_user_response, [])"
proof -
  have calls: "snd (process example_client unreachable (example_request\<lparr>conversation_id := Some []\<rparr>))
                 = [example_call]"
    by (simp add: process_calls try_body_calls py_or_def build_call_def build_payload_def
        get_headers_def example_client_def example_request_def example_call_def)
  have "map_of (json_arg example_call) ''conversationId'' = None"
    using process_truthiness [of "example_request\<lparr>conversation_id := Some []\<rparr>"
        example_client unreachable] calls
    by simp
  moreover have "process (example_client\<lparr>external_user_identifier := Some []\<rparr>) unreachable
         (example_request\<lparr>user_id := Some []\<rparr>)
       = (Inr missing_user_response, [])"
    using process_truthiness [of "example_request\<lparr>user_id := Some []\<rparr>"
        "example_client\<lparr>external_user_identifier := Some []\<rparr>" unreachable]
    by simp
  ultimately show ?thesis
    using calls by simp
qed

text \<open>
  C3 as stated fails. The claim asks for a \<open>status_code\<close> entry in the metadata of
  every failing call, null when the failure carries no HTTP status. For the request
  without a user identifier the catch-all handler returns the empty metadata: there is no
  \<open>status_code\<close> entry at all.
\<close>

theorem process_missing_user_metadata_counterexample:
  "process example_client unreachable (example_request\<lparr>user_id := None\<rparr>)
     = (Inr missing_user_response, [])
   \<and> error missing_user_response \<noteq> JNull
   \<and> metadata missing_user_response = []
   \<and> map_of (metadata missing_user_response) ''status_code'' = None"
  by (simp add: process_def try_body_def py_or_def handle_exception_def
      missing_user_response_def example_client_def example_request_def)

text \<open>
  C3 (amended). When the exception raised in the \<open>try\<close> block is one of the requests
  library and carries an HTTP response, the returned response has empty content and its
  metadata is exactly the \<open>status_code\<close> entry with that response's status; when the
  exception is of any other class (a fault that is not of the network, such as the
  missing user identifier), the metadata is the empty mapping.
\<close>

theorem process_failure_metadata:
  "(try_body self post request = (Inl e, calls) \<and> is_RequestException (cls e)
      \<and> response e = AttrResp r \<longrightarrow>
      process self post request
        = (Inr \<lparr>content = JStr [], metadata = [(''status_code'', JInt (status_code r))],
                 error = extract_error_message e\<rparr>, calls))
   \<and> (try_body self post request = (Inl e, calls) \<and> \<not> is_RequestException (cls e) \<longrightarrow>
      process self post request
        = (Inr \<lparr>content = JStr [], metadata = [],
                 error = JStr (''Unexpected error: '' @ str e)\<rparr>, calls))"
  by (simp add: process_def handle_request_exception_def status_code_of_def
      handle_exception_def)

theorem process_failure_metadata_witness:
  "try_body example_client (replies not_found) example_request
     = (Inl (Exc HTTPError (http_error_msg not_found) (AttrResp not_found)), [example_call])
   \<and> process example_client (replies not_found) example_request
     = (Inr \<lparr>content = JStr [], metadata = [(''status_code'', JInt 404)],
              error = JStr ''Unknown user''\<rparr>, [example_call])
   \<and> try_body example_client unreachable (example_request\<lparr>user_id := None\<rparr>)
     = (Inl (Exc ValueError
          ''User identifier is required. Provide it in the request or during initialization.''
          NoAttr), [])
   \<and> process example_client unreachable (example_request\<lparr>user_id := None\<rparr>)
     = (Inr missing_user_response, [])"
proof -
  have http: "try_body example_client (replies not_found) example_request
     = (Inl (Exc HTTPError (http_error_msg not_found) (AttrResp not_found)), [example_call])"
    by (simp add: try_body_def py_or_def replies_def raise_for_status_def
        example_call_built [symmetric])
      (simp add: example_client_def example_request_def not_found_def)
  have text_found: "extract_error_message (Exc HTTPError (http_error_msg not_found) (AttrResp not_found))
     = JStr ''Unknown user''"
    by (simp add: extract_error_message_def json_call_def not_found_def)
  have code: "status_code not_found = 404"
    by (simp add: not_found_def)
  have local: "try_body example_client unreachable (example_request\<lparr>user_id := None\<rparr>)
     = (Inl (Exc ValueError
          ''User identifier is required. Provide it in the request or during initialization.''
          NoAttr), [])"
    by (simp add: try_body_def py_or_def example_client_def example_request_def)
  have "process example_client (replies not_found) example_request
     = (Inr \<lparr>content = JStr [], metadata = [(''status_code'', JInt 404)],
              error = JStr ''Unknown user''\<rparr>, [example_call])"
    using process_failure_metadata [of example_client "replies not_found" example_request
        "Exc HTTPError (http_error_msg not_found) (AttrResp not_found)" "[example_call]" not_found]
      http text_found code
    by simp
  moreover have "process example_client unreachable (example_request\<lparr>user_id := None\<rparr>)
     = (Inr missing_user_response, [])"
    using process_failure_metadata [of example_client unreachable
        "example_request\<lparr>user_id := None\<rparr>"
        "Exc ValueError ''User identifier is required. Provide it in the request or during initialization.'' NoAttr"
        "[]"] local
    by (simp add: missing_user_response_def)
  ultimately show ?thesis
    using http local by simp
qed

section \<open>The direct client: the successful answer\<close>

text \<open>
  C5 as stated fails. The claim: after a successful call no field of the structured block
  is null. \<open>data.get(key, default)\<close> takes the default only when the key is absent; a
  body that holds \<open>"metrics": null\<close> puts \<open>None\<close> into the block.
\<close>

theorem process_null_metrics_counterexample:
  "process example_client (replies null_metrics) example_request
     = (Inr \<lparr>content = JStr ''Revenue grew.'',
              metadata = [(''suada_data'', JObj [(''metrics'', JNull),
                                                 (''insights'', JList []),
                                                 (''recommendations'', JList []),
                                                 (''risks'', JList []),
                                                 (''reasoning'', JStr [])]),
                          (''raw_response'', JObj [(''response'', JStr ''Revenue grew.''),
                                                   (''metrics'', JNull)])],
              error = JNull\<rparr>,
        [example_call])"
  by (simp add: process_def try_body_def py_or_def replies_def raise_for_status_def
      json_call_def format_response_def field_or_def null_metrics_def
      example_call_built [symmetric] example_client_def example_request_def)

text \<open>
  C5 (amended). On a 2xx answer whose body decodes to a mapping, the content is the
  body's \<open>response\<close> field and each field of the structured block is the body's field
  of that name, both with the empty text, mapping or sequence as the default of an absent
  key and the body's own value (null included) for a present one; the body itself is kept
  under \<open>raw_response\<close>, and the error is not set.
\<close>

theorem process_success_fields:
  assumes "uid = py_or (of_optional (user_id request)) (of_optional (external_user_identifier self))"
    and "truthy uid"
    and "post (build_call self request uid) = Inr resp"
    and "200 \<le> status_code resp" and "status_code resp < 300"
    and "json_result resp = Inr (JObj body)"
  shows "process self post request
           = (Inr \<lparr>content = field_or body ''response'' (JStr []),
                    metadata = [(''suada_data'',
                                   JObj [(''metrics'', field_or body ''metrics'' (JObj [])),
                                         (''insights'', field_or body ''insights'' (JList [])),
                                         (''recommendations'', field_or body ''recommendations'' (JList [])),
                                         (''risks'', field_or body ''risks'' (JList [])),
                                         (''reasoning'', field_or body ''reasoning'' (JStr []))]),
                                (''raw_response'', JObj body)],
                    error = JNull\<rparr>,
              [build_call self request uid])
         \<and> (\<forall>k d. k \<notin> fst ` set body \<longrightarrow> field_or body k d = d)
         \<and> (\<forall>k d v. map_of body k = Some v \<longrightarrow> field_or body k d = v)"
proof (intro conjI allI impI)
  show "process self post request
           = (Inr \<lparr>content = field_or body ''response'' (JStr []),
                    metadata = [(''suada_data'',
                                   JObj [(''metrics'', field_or body ''metrics'' (JObj [])),
                                         (''insights'', field_or body ''insights'' (JList [])),
                                         (''recommendations'', field_or body ''recommendations'' (JList [])),
                                         (''risks'', field_or body ''risks'' (JList [])),
                                         (''reasoning'', field_or body ''reasoning'' (JStr []))]),
                                (''raw_response'', JObj body)],
                    error = JNull\<rparr>,
              [build_call self request uid])"
    using assms
    by (simp add: process_def try_body_def raise_for_status_def json_call_def
        format_response_def)
next
  fix k d
  assume "k \<notin> fst ` set body"
  then have "map_of body k = None"
    by (simp add: map_of_eq_None_iff)
  then show "field_or body k d = d"
    by (simp add: field_or_def)
next
  fix k d v
  assume "map_of body k = Some v"
  then show "field_or body k d = v"
    by (simp add: field_or_def)
qed

theorem process_success_fields_witness:
  "truthy (JStr ''u1'')
   \<and> replies null_metrics example_call = Inr null_metrics
   \<and> status_code null_metrics = 200
   \<and> process example_client (replies null_metrics) example_request
     = (Inr \<lparr>content = JStr ''Revenue grew.'',
              metadata = [(''suada_data'', JObj [(''metrics'', JNull),
                                                 (''insights'', JList []),
                                                 (''recommendations'', JList []),
                                                 (''risks'', JList []),
                                                 (''reasoning'', JStr [])]),
                          (''raw_response'', JObj [(''response'', JStr ''Revenue grew.''),
                                                   (''metrics'', JNull)])],
              error = JNull\<rparr>,
        [example_call])"
proof -
  have uid: "py_or (of_optional (user_id example_request))
                   (of_optional (external_user_identifier example_client)) = JStr ''u1''"
    by (simp add: py_or_def example_request_def example_client_def)
  have answered: "replies null_metrics (build_call example_client example_request (JStr ''u1''))
                    = Inr null_metrics"
    by (simp add: replies_def)
  have status: "status_code null_metrics = 200"
    and body: "json_result null_metrics
                 = Inr (JObj [(''response'', JStr ''Revenue grew.''), (''metrics'', JNull)])"
    by (simp_all add: null_metrics_def)
  show ?thesis
    using process_success_fields [of "JStr ''u1''" example_request example_client
        "replies null_metrics" null_metrics
        "[(''response'', JStr ''Revenue grew.''), (''metrics'', JNull)]"]
      uid answered status body
    by (simp add: field_or_def example_call_built replies_def)
qed

section \<open>The tool handlers\<close>

lemma business_analyst_calls:
  "snd (business_analyst sdk qry) = snd (business_analyst_body sdk qry)"
  by (cases "business_analyst_body sdk qry")
    (auto simp: business_analyst_def split: sum.splits raised.splits)

lemma data_retrieval_calls:
  "snd (data_retrieval sdk data_source qry) = snd (data_retrieval_body sdk data_source qry)"
  by (cases "data_retrieval_body sdk data_source qry")
    (auto simp: data_retrieval_def split: sum.splits raised.splits)

lemma data_retrieval_success:
  "fst (data_retrieval sdk data_source qry) = Inr result
     \<longleftrightarrow> fst (data_retrieval_body sdk data_source qry) = Inr result"
  by (cases "data_retrieval_body sdk data_source qry")
    (auto simp: data_retrieval_def split: sum.splits raised.splits)

lemma data_retrieval_body_calls:
  "snd (data_retrieval_body sdk data_source qry) =
     (case payload_fault sdk (retrieval_message data_source qry) of
        Some x \<Rightarrow> []
      | None \<Rightarrow> [ChatPayload (retrieval_message data_source qry)])"
  by (simp add: data_retrieval_body_def Let_def split: option.splits)

text \<open>
  C7 as stated fails. The claim: every exception raised inside a handler's body reaches
  the server runtime as a tool-execution fault, never as its original type. The handlers
  catch \<open>Exception\<close> only: a \<open>KeyboardInterrupt\<close> raised while the chat call blocks
  leaves both handlers as a \<open>KeyboardInterrupt\<close>.
\<close>

theorem tool_handlers_keyboard_interrupt_counterexample:
  "business_analyst (failing_sdk (BaseOnly KeyboardInterrupt [])) ''How are sales?''
     = (Inl (BaseOnly KeyboardInterrupt []), [ChatPayload ''How are sales?''])
   \<and> data_retrieval (failing_sdk (BaseOnly KeyboardInterrupt [])) ''sales_db'' ''top products''
     = (Inl (BaseOnly KeyboardInterrupt []),
        [ChatPayload ''Retrieve data from sales_db: top products''])"
  by (simp add: business_analyst_def business_analyst_body_def data_retrieval_def
      data_retrieval_body_def retrieval_message_def failing_sdk_def)

text \<open>
  C7 (amended). Whatever instance of \<open>Exception\<close> the body of a tool handler raises,
  the server runtime sees one \<open>ToolExecutionError\<close> whose text is the handler's prefix
  followed by the text of the exception: so for an exception of the payload constructor,
  for one of the chat call, and for the \<open>AttributeError\<close> of an answer without a
  \<open>response\<close> attribute. An exception outside \<open>Exception\<close> leaves the handler
  unchanged, and no instance of \<open>Exception\<close> of another class than
  \<open>ToolExecutionError\<close> ever leaves a handler.
\<close>

theorem tool_handlers_uniform_fault:
  "(business_analyst_body sdk qry = (Inl (Exception e), calls) \<longrightarrow>
      business_analyst sdk qry
        = (Inl (Exception (Exc ToolExecutionError
                  (''Failed to get business insights: '' @ str e) NoAttr)), calls))
   \<and> (data_retrieval_body sdk data_source qry = (Inl (Exception e), calls) \<longrightarrow>
      data_retrieval sdk data_source qry
        = (Inl (Exception (Exc ToolExecutionError
                  (''Failed to retrieve data: '' @ str e) NoAttr)), calls))
   \<and> (payload_fault sdk qry = Some (Exception e) \<longrightarrow>
      business_analyst sdk qry
        = (Inl (Exception (Exc ToolExecutionError
                  (''Failed to get business insights: '' @ str e) NoAttr)), []))
   \<and> (payload_fault sdk qry = None \<and> chat sdk (ChatPayload qry) = Inl (Exception e) \<longrightarrow>
      business_analyst sdk qry
        = (Inl (Exception (Exc ToolExecutionError
                  (''Failed to get business insights: '' @ str e) NoAttr)),
           [ChatPayload qry]))
   \<and> (payload_fault sdk qry = None \<and> chat sdk (ChatPayload qry) = Inr resp
        \<and> map_of (attrs resp) ''response'' = None \<longrightarrow>
      business_analyst sdk qry
        = (Inl (Exception (Exc ToolExecutionError
                  (''Failed to get business insights: '' @ quoted (class_name resp)
                     @ '' object has no attribute '' @ quoted ''response'') NoAttr)),
           [ChatPayload qry]))
   \<and> (payload_fault sdk (retrieval_message data_source qry) = Some (Exception e) \<longrightarrow>
      data_retrieval sdk data_source qry
        = (Inl (Exception (Exc ToolExecutionError
                  (''Failed to retrieve data: '' @ str e) NoAttr)), []))
   \<and> (payload_fault sdk (retrieval_message data_source qry) = None
        \<and> chat sdk (ChatPayload (retrieval_message data_source qry)) = Inl (Exception e) \<longrightarrow>
      data_retrieval sdk data_source qry
        = (Inl (Exception (Exc ToolExecutionError
                  (''Failed to retrieve data: '' @ str e) NoAttr)),
           [ChatPayload (retrieval_message data_source qry)]))
   \<and> (payload_fault sdk (retrieval_message data_source qry) = None
        \<and> chat sdk (ChatPayload (retrieval_message data_source qry)) = Inr resp
        \<and> map_of (attrs resp) ''response'' = None \<longrightarrow>
      data_retrieval sdk data_source qry
        = (Inl (Exception (Exc ToolExecutionError
                  (''Failed to retrieve data: '' @ quoted (class_name resp)
                     @ '' object has no attribute '' @ quoted ''response'') NoAttr)),
           [ChatPayload (retrieval_message data_source qry)]))
   \<and> (business_analyst_body sdk qry = (Inl (BaseOnly k m), calls) \<longrightarrow>
      business_analyst sdk qry = (Inl (BaseOnly k m), calls))
   \<and> (data_retrieval_body sdk data_source qry = (Inl (BaseOnly k m), calls) \<longrightarrow>
      data_retrieval sdk data_source qry = (Inl (BaseOnly k m), calls))
   \<and> (\<forall>x. fst (business_analyst sdk qry) = Inl (Exception x) \<longrightarrow> cls x = ToolExecutionError)
   \<and> (\<forall>x. fst (data_retrieval sdk data_source qry) = Inl (Exception x) \<longrightarrow>
          cls x = ToolExecutionError)"
proof (intro conjI allI impI)
  fix x
  assume "fst (business_analyst sdk qry) = Inl (Exception x)"
  then show "cls x = ToolExecutionError"
    by (cases "business_analyst_body sdk qry")
      (auto simp: business_analyst_def split: sum.splits raised.splits)
next
  fix x
  assume "fst (data_retrieval sdk data_source qry) = Inl (Exception x)"
  then show "cls x = ToolExecutionError"
    by (cases "data_retrieval_body sdk data_source qry")
      (auto simp: data_retrieval_def split: sum.splits raised.splits)
qed (simp_all add: business_analyst_def data_retrieval_def business_analyst_body_def
    data_retrieval_body_def getattr_def)

theorem tool_handlers_uniform_fault_witness:
  "business_analyst (failing_sdk (Exception (Exc Timeout ''Read timed out'' AttrNone))) ''How are sales?''
     = (Inl (Exception (Exc ToolExecutionError
               ''Failed to get business insights: Read timed out'' NoAttr)),
        [ChatPayload ''How are sales?''])
   \<and> business_analyst (rejecting_sdk (Exception (Exc TypeError ''bad message'' NoAttr))) ''How are sales?''
     = (Inl (Exception (Exc ToolExecutionError
               ''Failed to get business insights: bad message'' NoAttr)), [])
   \<and> data_retrieval (failing_sdk (Exception (Exc Timeout ''Read timed out'' AttrNone)))
         ''sales_db'' ''top products''
     = (Inl (Exception (Exc ToolExecutionError ''Failed to retrieve data: Read timed out'' NoAttr)),
        [ChatPayload ''Retrieve data from sales_db: top products''])
   \<and> data_retrieval (rejecting_sdk (Exception (Exc TypeError ''bad message'' NoAttr)))
         ''sales_db'' ''top products''
     = (Inl (Exception (Exc ToolExecutionError ''Failed to retrieve data: bad message'' NoAttr)), [])
   \<and> cls (Exc ToolExecutionError ''Failed to retrieve data: bad message'' NoAttr)
     = ToolExecutionError
   \<and> business_analyst (rejecting_sdk (BaseOnly SystemExit ''1'')) ''How are sales?''
     = (Inl (BaseOnly SystemExit ''1''), [])"
proof -
  have timeout_ba:
    "business_analyst (failing_sdk (Exception (Exc Timeout ''Read timed out'' AttrNone))) ''How are sales?''
     = (Inl (Exception (Exc ToolExecutionError
               ''Failed to get business insights: Read timed out'' NoAttr)),
        [ChatPayload ''How are sales?''])"
    using tool_handlers_uniform_fault [of
        "failing_sdk (Exception (Exc Timeout ''Read timed out'' AttrNone))"
        "''How are sales?''" "Exc Timeout ''Read timed out'' AttrNone" "[]" "''sales_db''"
        bare_answer KeyboardInterrupt "[]"]
    by (simp add: failing_sdk_def)
  have timeout_dr:
    "data_retrieval (failing_sdk (Exception (Exc Timeout ''Read timed out'' AttrNone)))
         ''sales_db'' ''top products''
     = (Inl (Exception (Exc ToolExecutionError ''Failed to retrieve data: Read timed out'' NoAttr)),
        [ChatPayload ''Retrieve data from sales_db: top products''])"
    using tool_handlers_uniform_fault [of
        "failing_sdk (Exception (Exc Timeout ''Read timed out'' AttrNone))"
        "''top products''" "Exc Timeout ''Read timed out'' AttrNone" "[]" "''sales_db''"
        bare_answer KeyboardInterrupt "[]"]
    by (simp add: failing_sdk_def retrieval_message_def)
  have reject_ba:
    "business_analyst (rejecting_sdk (Exception (Exc TypeError ''bad message'' NoAttr))) ''How are sales?''
     = (Inl (Exception (Exc ToolExecutionError
               ''Failed to get business insights: bad message'' NoAttr)), [])"
    using tool_handlers_uniform_fault [of
        "rejecting_sdk (Exception (Exc TypeError ''bad message'' NoAttr))"
        "''How are sales?''" "Exc TypeError ''bad message'' NoAttr" "[]" "''sales_db''"
        bare_answer KeyboardInterrupt "[]"]
    by (simp add: rejecting_sdk_def)
  have reject_dr:
    "data_retrieval (rejecting_sdk (Exception (Exc TypeError ''bad message'' NoAttr)))
         ''sales_db'' ''top products''
     = (Inl (Exception (Exc ToolExecutionError ''Failed to retrieve data: bad message'' NoAttr)), [])"
    using tool_handlers_uniform_fault [of
        "rejecting_sdk (Exception (Exc TypeError ''bad message'' NoAttr))"
        "''top products''" "Exc TypeError ''bad message'' NoAttr" "[]" "''sales_db''"
        bare_answer KeyboardInterrupt "[]"]
    by (simp add: rejecting_sdk_def retrieval_message_def)
  have body: "business_analyst_body (rejecting_sdk (BaseOnly SystemExit ''1'')) ''How are sales?''
                = (Inl (BaseOnly SystemExit ''1''), [])"
    by (simp add: business_analyst_body_def rejecting_sdk_def)
  have pass: "business_analyst (rejecting_sdk (BaseOnly SystemExit ''1'')) ''How are sales?''
     = (Inl (BaseOnly SystemExit ''1''), [])"
    using tool_handlers_uniform_fault [of "rejecting_sdk (BaseOnly SystemExit ''1'')"
        "''How are sales?''" "Exc TypeError ''bad message'' NoAttr" "[]" "''sales_db''"
        bare_answer SystemExit "''1''"] body
    by simp
  from timeout_ba timeout_dr reject_ba reject_dr pass show ?thesis
    by simp
qed

text \<open>
  C8. For every data source and query, \<open>data_retrieval\<close> hands to the chat call the
  text \<open>Retrieve data from {data_source}: {query}\<close> and nothing else: once the payload
  is built, exactly one call is made, with that text. When the chat call answers with an
  object that has a \<open>response\<close> attribute, the handler returns that attribute under
  \<open>data\<close> and the two inputs under \<open>metadata\<close>; and every successful result is of
  this form.
\<close>

theorem data_retrieval_message_and_result:
  "retrieval_message data_source qry = ''Retrieve data from '' @ data_source @ '': '' @ qry
   \<and> (payload_fault sdk (''Retrieve data from '' @ data_source @ '': '' @ qry) = None \<longrightarrow>
         snd (data_retrieval sdk data_source qry)
           = [ChatPayload (''Retrieve data from '' @ data_source @ '': '' @ qry)])
   \<and> (payload_fault sdk (''Retrieve data from '' @ data_source @ '': '' @ qry) = None
        \<and> chat sdk (ChatPayload (''Retrieve data from '' @ data_source @ '': '' @ qry)) = Inr resp
        \<and> map_of (attrs resp) ''response'' = Some r \<longrightarrow>
         data_retrieval sdk data_source qry
           = (Inr [(''data'', r),
                   (''metadata'', JObj [(''source'', JStr data_source), (''query'', JStr qry)])],
              [ChatPayload (''Retrieve data from '' @ data_source @ '': '' @ qry)]))
   \<and> (payload_fault sdk (''Retrieve data from '' @ data_source @ '': '' @ qry) = Some x \<longrightarrow>
         snd (data_retrieval sdk data_source qry) = [])
   \<and> (\<forall>p \<in> set (snd (data_retrieval sdk data_source qry)).
         message p = ''Retrieve data from '' @ data_source @ '': '' @ qry)
   \<and> (\<forall>result. fst (data_retrieval sdk data_source qry) = Inr result \<longrightarrow>
         snd (data_retrieval sdk data_source qry)
           = [ChatPayload (''Retrieve data from '' @ data_source @ '': '' @ qry)]
         \<and> (\<exists>resp r. chat sdk (ChatPayload (''Retrieve data from '' @ data_source @ '': '' @ qry)) = Inr resp
               \<and> map_of (attrs resp) ''response'' = Some r
               \<and> result = [(''data'', r),
                            (''metadata'', JObj [(''source'', JStr data_source),
                                                 (''query'', JStr qry)])]))"
proof (intro conjI ballI allI impI)
  show "retrieval_message data_source qry = ''Retrieve data from '' @ data_source @ '': '' @ qry"
    by (simp add: retrieval_message_def)
next
  assume "payload_fault sdk (''Retrieve data from '' @ data_source @ '': '' @ qry) = None"
  then show "snd (data_retrieval sdk data_source qry)
           = [ChatPayload (''Retrieve data from '' @ data_source @ '': '' @ qry)]"
    by (simp add: data_retrieval_calls data_retrieval_body_calls retrieval_message_def)
next
  assume "payload_fault sdk (''Retrieve data from '' @ data_source @ '': '' @ qry) = None
        \<and> chat sdk (ChatPayload (''Retrieve data from '' @ data_source @ '': '' @ qry)) = Inr resp
        \<and> map_of (attrs resp) ''response'' = Some r"
  then show "data_retrieval sdk data_source qry
           = (Inr [(''data'', r),
                   (''metadata'', JObj [(''source'', JStr data_source), (''query'', JStr qry)])],
              [ChatPayload (''Retrieve data from '' @ data_source @ '': '' @ qry)])"
    by (simp add: data_retrieval_def data_retrieval_body_def retrieval_message_def getattr_def)
next
  assume "payload_fault sdk (''Retrieve data from '' @ data_source @ '': '' @ qry) = Some x"
  then show "snd (data_retrieval sdk data_source qry) = []"
    by (simp add: data_retrieval_calls data_retrieval_body_calls retrieval_message_def)
next
  fix p
  assume "p \<in> set (snd (data_retrieval sdk data_source qry))"
  then show "message p = ''Retrieve data from '' @ data_source @ '': '' @ qry"
    by (simp add: data_retrieval_calls data_retrieval_body_calls retrieval_message_def
        split: option.splits)
next
  fix result
  assume "fst (data_retrieval sdk data_source qry) = Inr result"
  then have ok: "fst (data_retrieval_body sdk data_source qry) = Inr result"
    by (simp add: data_retrieval_success)
  then have built: "payload_fault sdk (retrieval_message data_source qry) = None"
    by (simp add: data_retrieval_body_def split: option.splits)
  then show "snd (data_retrieval sdk data_source qry)
           = [ChatPayload (''Retrieve data from '' @ data_source @ '': '' @ qry)]"
    by (simp add: data_retrieval_calls data_retrieval_body_calls retrieval_message_def)
  from ok built
  have "\<exists>resp r. chat sdk (ChatPayload (retrieval_message data_source qry)) = Inr resp
               \<and> map_of (attrs resp) ''response'' = Some r
               \<and> result = [(''data'', r),
                            (''metadata'', JObj [(''source'', JStr data_source),
                                                 (''query'', JStr qry)])]"
    by (auto simp: data_retrieval_body_def Let_def getattr_def split: sum.splits option.splits)
  then show "\<exists>resp r. chat sdk (ChatPayload (''Retrieve data from '' @ data_source @ '': '' @ qry)) = Inr resp
               \<and> map_of (attrs resp) ''response'' = Some r
               \<and> result = [(''data'', r),
                            (''metadata'', JObj [(''source'', JStr data_source),
                                                 (''query'', JStr qry)])]"
    by (simp add: retrieval_message_def)
qed

theorem data_retrieval_message_and_result_witness:
  "payload_fault (answering_sdk plain_answer) ''Retrieve data from sales_db: top products'' = None
   \<and> chat (answering_sdk plain_answer) (ChatPayload ''Retrieve data from sales_db: top products'')
       = Inr plain_answer
   \<and> map_of (attrs plain_answer) ''response'' = Some (JStr ''42 units'')
   \<and> data_retrieval (answering_sdk plain_answer) ''sales_db'' ''top products''
     = (Inr [(''data'', JStr ''42 units''),
             (''metadata'', JObj [(''source'', JStr ''sales_db''),
                                  (''query'', JStr ''top products'')])],
        [ChatPayload ''Retrieve data from sales_db: top products''])"
proof -
  have built: "payload_fault (answering_sdk plain_answer)
                 ''Retrieve data from sales_db: top products'' = None"
    and answered: "chat (answering_sdk plain_answer)
                     (ChatPayload ''Retrieve data from sales_db: top products'') = Inr plain_answer"
    by (simp_all add: answering_sdk_def)
  have attribute: "map_of (attrs plain_answer) ''response'' = Some (JStr ''42 units'')"
    by (simp add: plain_answer_def)
  have "data_retrieval (answering_sdk plain_answer) ''sales_db'' ''top products''
     = (Inr [(''data'', JStr ''42 units''),
             (''metadata'', JObj [(''source'', JStr ''sales_db''),
                                  (''query'', JStr ''top products'')])],
        [ChatPayload ''Retrieve data from sales_db: top products''])"
    using data_retrieval_message_and_result [of "''sales_db''" "''top products''"
        "answering_sdk plain_answer" plain_answer "JStr ''42 units''"
        "BaseOnly SystemExit []", THEN conjunct2, THEN conjunct2, THEN conjunct1]
      built answered attribute
    by simp
  with built answered attribute show ?thesis
    by simp
qed

text \<open>
  C9 as stated fails. The claim: no field of the result of \<open>business_analyst\<close> is null.
  The \<open>response\<close> attribute is copied as it is, without a substitute, so an answer
  whose \<open>response\<close> is \<open>None\<close> gives a result whose \<open>response\<close> is null.
\<close>

theorem business_analyst_null_response_counterexample:
  "business_analyst (answering_sdk null_answer) ''How are sales?''
     = (Inr [(''response'', JNull), (''metrics'', JObj []), (''insights'', JList []),
             (''recommendations'', JList []), (''risks'', JList [])],
        [ChatPayload ''How are sales?''])"
  by (simp add: business_analyst_def business_analyst_body_def getattr_def py_or_def
      answering_sdk_def null_answer_def)

text \<open>
  C9 (amended). For an answer of the chat call that has the five attributes,
  \<open>response\<close> is copied unchanged; each of \<open>metrics\<close>, \<open>insights\<close>,
  \<open>recommendations\<close> and \<open>risks\<close> is the attribute when it is true in Python's
  sense and the empty mapping or sequence otherwise, so a null attribute becomes the empty
  one and none of the four is null.
\<close>

theorem business_analyst_result_fields:
  assumes "payload_fault sdk qry = None"
    and "chat sdk (ChatPayload qry) = Inr resp"
    and "map_of (attrs resp) ''response'' = Some r"
    and "map_of (attrs resp) ''metrics'' = Some m"
    and "map_of (attrs resp) ''insights'' = Some i"
    and "map_of (attrs resp) ''recommendations'' = Some rc"
    and "map_of (attrs resp) ''risks'' = Some rk"
  shows "business_analyst sdk qry
           = (Inr [(''response'', r),
                   (''metrics'', if truthy m then m else JObj []),
                   (''insights'', if truthy i then i else JList []),
                   (''recommendations'', if truthy rc then rc else JList []),
                   (''risks'', if truthy rk then rk else JList [])],
              [ChatPayload qry])
         \<and> (if truthy m then m else JObj []) \<noteq> JNull
         \<and> (if truthy i then i else JList []) \<noteq> JNull
         \<and> (if truthy rc then rc else JList []) \<noteq> JNull
         \<and> (if truthy rk then rk else JList []) \<noteq> JNull"
proof -
  have not_null: "(if truthy v then v else d) \<noteq> JNull" if "d \<noteq> JNull" for v d
    using that by (cases v) simp_all
  have "business_analyst sdk qry
           = (Inr [(''response'', r),
                   (''metrics'', if truthy m then m else JObj []),
                   (''insights'', if truthy i then i else JList []),
                   (''recommendations'', if truthy rc then rc else JList []),
                   (''risks'', if truthy rk then rk else JList [])],
              [ChatPayload qry])"
    using assms
    by (simp add: business_analyst_def business_analyst_body_def getattr_def py_or_def)
  then show ?thesis
    by (simp add: not_null)
qed

theorem business_analyst_result_fields_witness:
  "business_analyst (answering_sdk plain_answer) ''How are sales?''
     = (Inr [(''response'', JStr ''42 units''),
             (''metrics'', JObj [(''units'', JInt 42)]),
             (''insights'', JList []),
             (''recommendations'', JList [JStr ''Restock'']),
             (''risks'', JList [])],
        [ChatPayload ''How are sales?''])"
  using business_analyst_result_fields [of "answering_sdk plain_answer" "''How are sales?''"
      plain_answer "JStr ''42 units''" "JObj [(''units'', JInt 42)]" JNull
      "JList [JStr ''Restock'']" "JList []"]
  by (simp add: answering_sdk_def plain_answer_def)

end
